theory Spec2Isabelle
  imports Main "HOL-Library.Char_ord" "HOL-Library.List_Lexorder"
begin

section \<open>Characters and strings of the decoded file\<close>

text \<open>
  \<^verbatim>\<open>sitesgouv.py\<close> opens its input with \<^verbatim>\<open>encoding='latin-1'\<close>: every byte of the file
  is one code point in 0..255, which is exactly HOL's \<^typ>\<open>char\<close>, and a Python \<^verbatim>\<open>str\<close>
  of the program is a \<^typ>\<open>string\<close>. Python compares strings lexicographically by code
  point, which is the order of \<^verbatim>\<open>Char_ord\<close> and \<^verbatim>\<open>List_Lexorder\<close>.
  The character classes below are Python's \<^verbatim>\<open>str.isspace\<close>, \<^verbatim>\<open>str.isprintable\<close> and
  \<^verbatim>\<open>str.isupper\<close> restricted to these 256 code points; \<^verbatim>\<open>str.lower\<close> moves each
  uppercase letter 32 code points up and leaves every other character alone.
\<close>

datatype erreur = IndexError | ValueError | ZeroDivisionError | OSError | SystemExit int

definition isspace :: "char \<Rightarrow> bool" where
  "isspace c = (let n = (of_char c :: nat)
                in (9 \<le> n \<and> n \<le> 13) \<or> (28 \<le> n \<and> n \<le> 32) \<or> n = 133 \<or> n = 160)"

definition isprintable :: "char \<Rightarrow> bool" where
  "isprintable c = (let n = (of_char c :: nat)
                    in \<not> (n \<le> 31 \<or> (127 \<le> n \<and> n \<le> 160) \<or> n = 173))"

definition isupper :: "char \<Rightarrow> bool" where
  "isupper c = (let n = (of_char c :: nat)
                in (65 \<le> n \<and> n \<le> 90) \<or> (192 \<le> n \<and> n \<le> 222 \<and> n \<noteq> 215))"

definition lower_char :: "char \<Rightarrow> char" where
  "lower_char c = (if isupper c then char_of (of_char c + 32 :: nat) else c)"

text \<open>\<^verbatim>\<open>s.lower()\<close>\<close>

definition lower :: "string \<Rightarrow> string" where
  "lower s = map lower_char s"

text \<open>\<^verbatim>\<open>s.strip()\<close>: leading and trailing whitespace removed.\<close>

definition strip :: "string \<Rightarrow> string" where
  "strip s = rev (dropWhile isspace (rev (dropWhile isspace s)))"

text \<open>\<^verbatim>\<open>s.isspace()\<close>: at least one character, and all of them whitespace.\<close>

definition str_isspace :: "string \<Rightarrow> bool" where
  "str_isspace s = (s \<noteq> [] \<and> list_all isspace s)"

text \<open>\<^verbatim>\<open>s.startswith(p)\<close> and \<^verbatim>\<open>s.endswith(t)\<close>\<close>

fun startswith :: "string \<Rightarrow> string \<Rightarrow> bool" where
  "startswith s [] = True"
| "startswith [] (p # ps) = False"
| "startswith (c # cs) (p # ps) = (c = p \<and> startswith cs ps)"

definition endswith :: "string \<Rightarrow> string \<Rightarrow> bool" where
  "endswith s t = (length t \<le> length s \<and> drop (length s - length t) s = t)"

text \<open>\<^verbatim>\<open>sub in s\<close>: \<^verbatim>\<open>sub\<close> occurs in \<^verbatim>\<open>s\<close> as a contiguous substring.\<close>

fun str_in :: "string \<Rightarrow> string \<Rightarrow> bool" where
  "str_in sub [] = (sub = [])"
| "str_in sub (c # cs) = (startswith (c # cs) sub \<or> str_in sub cs)"

text \<open>
  \<^verbatim>\<open>s.replace(old, new)\<close>: one scan from the left; each occurrence found is replaced and
  the scan goes on after it, so the replaced occurrences do not overlap and the
  result is not scanned again.
\<close>

function replace_str :: "string \<Rightarrow> string \<Rightarrow> string \<Rightarrow> string" where
  "replace_str old new [] = (if old = [] then new else [])"
| "replace_str old new (c # cs) =
     (if old = [] then new @ c # replace_str old new cs
      else if startswith (c # cs) old
           then new @ replace_str old new (drop (length old - 1) cs)
           else c # replace_str old new cs)"
  by pat_completeness auto
termination
  by (relation "measure (\<lambda>(old, new, s). length s)") auto

text \<open>\<^verbatim>\<open>s.split(sep)\<close> for a one-character separator: never the empty list.\<close>

fun split_sep :: "char \<Rightarrow> string \<Rightarrow> string list" where
  "split_sep sep [] = [[]]"
| "split_sep sep (c # cs) =
     (if c = sep then [] # split_sep sep cs
      else (case split_sep sep cs of [] \<Rightarrow> [[c]] | w # ws \<Rightarrow> (c # w) # ws))"

text \<open>\<^verbatim>\<open>s.split()\<close>: the maximal runs of non-whitespace characters; empty for a blank string.\<close>

function split_ws :: "string \<Rightarrow> string list" where
  "split_ws [] = []"
| "split_ws (c # cs) =
     (if isspace c then split_ws cs
      else (c # takeWhile (\<lambda>x. \<not> isspace x) cs) # split_ws (dropWhile (\<lambda>x. \<not> isspace x) cs))"
  by pat_completeness auto
termination
  by (relation "measure length") (auto simp: less_Suc_eq_le length_dropWhile_le)

text \<open>\<^verbatim>\<open>xs[0]\<close>, which raises \<^verbatim>\<open>IndexError\<close> on the empty list.\<close>

definition index0 :: "'a list \<Rightarrow> erreur + 'a" where
  "index0 xs = (case xs of [] \<Rightarrow> Inl IndexError | x # _ \<Rightarrow> Inr x)"

text \<open>\<^verbatim>\<open>str(i)\<close> for a non-negative integer: its decimal digits.\<close>

fun str_nat :: "nat \<Rightarrow> string" where
  "str_nat n = (if n < 10 then [char_of (48 + n)]
                else str_nat (n div 10) @ [char_of (48 + n mod 10)])"

declare str_nat.simps [simp del]

text \<open>
  Text mode with the default \<^verbatim>\<open>newline=None\<close>: \<^verbatim>\<open>\r\n\<close> and a lone \<^verbatim>\<open>\r\<close> are read as
  \<^verbatim>\<open>\n\<close>; \<^verbatim>\<open>readlines()\<close> then cuts after every \<^verbatim>\<open>\n\<close> and keeps it in the line.
\<close>

fun universal_newlines :: "string \<Rightarrow> string" where
  "universal_newlines [] = []"
| "universal_newlines [c] = [if c = CHR 0x0D then CHR 0x0A else c]"
| "universal_newlines (c # d # ds) =
     (if c = CHR 0x0D \<and> d = CHR 0x0A then CHR 0x0A # universal_newlines ds
      else if c = CHR 0x0D then CHR 0x0A # universal_newlines (d # ds)
      else c # universal_newlines (d # ds))"

fun cut_lines :: "string \<Rightarrow> string list" where
  "cut_lines [] = []"
| "cut_lines (c # cs) =
     (if c = CHR 0x0A then [c] # cut_lines cs
      else (case cut_lines cs of [] \<Rightarrow> [[c]] | l # ls \<Rightarrow> (c # l) # ls))"

definition readlines :: "string \<Rightarrow> string list" where
  "readlines contenu = cut_lines (universal_newlines contenu)"

section \<open>The loader: \<^verbatim>\<open>AnalyseurDomainesGouvFr.charger_domaines\<close>\<close>

record analyseur =
  source_file :: string
  lignes_brutes :: int
  domaines :: "string list"
  domaines_manquants :: "string list"

text \<open>\<^verbatim>\<open>__init__\<close>\<close>

definition init :: "string \<Rightarrow> analyseur" where
  "init f = \<lparr>source_file = f, lignes_brutes = 0, domaines = [], domaines_manquants = []\<rparr>"

definition tld_valides :: "string list" where
  "tld_valides = [''.gouv.fr'', ''.fr'', ''.gouv.nc'', ''.nc'', ''.gouv.pf'', ''.pref.gouv.fr'']"

text \<open>
  Line 40: the text before the first tab when the line has a tab, the first
  whitespace-separated word otherwise; both are element 0 of a list.
\<close>

definition partie_domaine :: "string \<Rightarrow> erreur + string" where
  "partie_domaine ligne =
     (if CHR 0x09 \<in> set ligne then index0 (split_sep (CHR 0x09) ligne)
      else index0 (split_ws ligne))"

text \<open>Lines 46 and 48: lowercase, \<^verbatim>\<open>replace('www.', '')\<close>, then the character filter.\<close>

definition nettoyer :: "string \<Rightarrow> string" where
  "nettoyer p =
     filter (\<lambda>c. isprintable c \<and> \<not> isspace c) (replace_str ''www.'' [] (lower p))"

text \<open>Line 52: \<^verbatim>\<open>any(domaine.endswith(tld) for tld in tld_valides)\<close>\<close>

definition tld_valide :: "string \<Rightarrow> bool" where
  "tld_valide domaine = list_ex (endswith domaine) tld_valides"

text \<open>Line 57: \<^verbatim>\<open>f"Ligne {i}: {ligne[:50]}..."\<close>\<close>

definition manquant :: "nat \<Rightarrow> string \<Rightarrow> string" where
  "manquant i ligne = ''Ligne '' @ str_nat i @ '': '' @ take 50 ligne @ ''...''"

text \<open>
  One turn of the loop of lines 34 to 57, on the pair of the local set
  \<^verbatim>\<open>ensemble_domaines\<close> and the attribute \<^verbatim>\<open>self.domaines_manquants\<close>.
\<close>

definition traiter_ligne ::
  "nat \<Rightarrow> string \<Rightarrow> string set \<times> string list \<Rightarrow> erreur + (string set \<times> string list)" where
  "traiter_ligne i l acc =
     (let ligne = strip l in
      if ligne = [] then Inr acc
      else (case partie_domaine ligne of
              Inl e \<Rightarrow> Inl e
            | Inr p \<Rightarrow>
               (let partie = strip p in
                if partie \<noteq> [] then
                  (let domaine = nettoyer partie in
                   if tld_valide domaine then Inr (insert domaine (fst acc), snd acc)
                   else if ligne \<noteq> [] \<and> \<not> startswith ligne ''#'' \<and> \<not> str_isspace ligne
                        then Inr (fst acc, snd acc @ [manquant i ligne])
                        else Inr acc)
                else Inr acc)))"

text \<open>The loop itself, over \<^verbatim>\<open>enumerate(lignes, 1)\<close>; an exception in one turn ends it.\<close>

fun boucle ::
  "(nat \<times> string) list \<Rightarrow> string set \<times> string list \<Rightarrow> erreur + (string set \<times> string list)" where
  "boucle [] acc = Inr acc"
| "boucle ((i, l) # reste) acc =
     (case traiter_ligne i l acc of Inl e \<Rightarrow> Inl e | Inr acc' \<Rightarrow> boucle reste acc')"

text \<open>
  The body of the \<^verbatim>\<open>try\<close> once \<^verbatim>\<open>readlines()\<close> has returned: \<^verbatim>\<open>lignes_brutes\<close> and
  \<^verbatim>\<open>domaines\<close> are assigned, \<^verbatim>\<open>domaines_manquants\<close> is appended to.
\<close>

definition charger_lignes :: "analyseur \<Rightarrow> string list \<Rightarrow> erreur + analyseur" where
  "charger_lignes self lignes =
     (case boucle (enumerate 1 lignes) ({}, domaines_manquants self) of
        Inl e \<Rightarrow> Inl e
      | Inr acc \<Rightarrow>
          Inr (self\<lparr>lignes_brutes := int (length (filter (\<lambda>l. strip l \<noteq> []) lignes)),
                    domaines := sorted_list_of_set (fst acc),
                    domaines_manquants := snd acc\<rparr>))"

text \<open>
  \<^verbatim>\<open>charger_domaines\<close>. The second argument is what opening and reading the file gives:
  an error, or the content. Any exception inside the \<^verbatim>\<open>try\<close> ends in \<^verbatim>\<open>sys.exit(1)\<close>.
\<close>

definition charger_domaines :: "analyseur \<Rightarrow> erreur + string \<Rightarrow> erreur + analyseur" where
  "charger_domaines self fichier =
     (case fichier of
        Inl e \<Rightarrow> Inl (SystemExit 1)
      | Inr contenu \<Rightarrow>
          (case charger_lignes self (readlines contenu) of
             Inl e \<Rightarrow> Inl (SystemExit 1)
           | Inr self' \<Rightarrow> Inr self'))"

section \<open>The analysis: \<^verbatim>\<open>AnalyseurDomainesGouvFr.analyser\<close>\<close>

text \<open>
  \<^verbatim>\<open>longueur_moyenne\<close> is the integer \<^verbatim>\<open>0\<close> or the float \<^verbatim>\<open>round(s / n, 1)\<close>. The float is
  kept as the two integers it is computed from; no claim below depends on its digits.
\<close>

datatype py_nombre = Entier int | Arrondi1 int int

record analyse =
  total_domaines :: int
  lignes_brutes_a :: int
  nombre_manquant :: int
  ministere_uniquement :: int
  region_uniquement :: int
  service_uniquement :: int
  prefecture_uniquement :: int
  nombre_chevauchement :: int
  nombre_ministere :: int
  nombre_region :: int
  nombre_service :: int
  nombre_prefecture :: int
  nombre_developpement :: int
  domaine_plus_long :: string
  domaine_plus_court :: string
  longueur_moyenne :: py_nombre
  manquants_critiques :: "string list"

text \<open>
  \<^verbatim>\<open>max(xs, key=len)\<close> and \<^verbatim>\<open>min(xs, key=len)\<close>: the first element of greatest (least)
  length; \<^verbatim>\<open>ValueError\<close> on the empty list.
\<close>

fun max_len :: "string list \<Rightarrow> erreur + string" where
  "max_len [] = Inl ValueError"
| "max_len (d # ds) = Inr (foldl (\<lambda>m x. if length m < length x then x else m) d ds)"

fun min_len :: "string list \<Rightarrow> erreur + string" where
  "min_len [] = Inl ValueError"
| "min_len (d # ds) = Inr (foldl (\<lambda>m x. if length x < length m then x else m) d ds)"

text \<open>\<^verbatim>\<open>round(s / n, 1)\<close>: the division raises \<^verbatim>\<open>ZeroDivisionError\<close> when \<^verbatim>\<open>n\<close> is 0.\<close>

definition truediv_round1 :: "int \<Rightarrow> int \<Rightarrow> erreur + py_nombre" where
  "truediv_round1 s n = (if n = 0 then Inl ZeroDivisionError else Inr (Arrondi1 s n))"

definition mots_cles_ministere :: "string list" where
  "mots_cles_ministere =
     [''agriculture'', ''culture'', ''defense'', ''education'', ''economie'',
      ''sante'', ''interieur'', ''justice'', ''travail'', ''environnement'',
      ''logement'', ''outre-mer'', ''fonction-publique'', ''sports'', ''budget'']"

definition mots_cles_region :: "string list" where
  "mots_cles_region =
     [''alsace'', ''aquitaine'', ''bretagne'', ''corse'', ''normandie'',
      ''provence'', ''lorraine'', ''bourgogne'', ''centre'', ''auvergne'',
      ''franche-comte'', ''languedoc'', ''limousin'', ''midi-pyrenees'',
      ''picardie'', ''poitou-charentes'', ''rhone-alpes'', ''paca'',
      ''reunion'', ''guadeloupe'', ''martinique'', ''guyane'', ''iledefrance'']"

definition mots_cles_service :: "string list" where
  "mots_cles_service =
     [''service-public'', ''impots'', ''douane'', ''legifrance'', ''data.gouv'',
      ''moncompteformation'', ''francetravail'', ''ants'', ''ameli'', ''pole-emploi'']"

definition domaines_critiques :: "string list" where
  "domaines_critiques =
     [''economie.gouv.fr'', ''interieur.gouv.fr'', ''education.gouv.fr'',
      ''sante.gouv.fr'', ''defense.gouv.fr'', ''justice.gouv.fr'',
      ''travail.gouv.fr'', ''culture.gouv.fr'', ''agriculture.gouv.fr'',
      ''service-public.fr'', ''impots.gouv.fr'', ''francetravail.fr'',
      ''gouvernement.fr'', ''elysee.fr'', ''assemblee-nationale.fr'']"

text \<open>\<^verbatim>\<open>any(mc in domaine for mc in mots)\<close>\<close>

definition any_in :: "string list \<Rightarrow> string \<Rightarrow> bool" where
  "any_in mots domaine = list_ex (\<lambda>mc. str_in mc domaine) mots"

datatype categorie = Ministere | Region | Service | Prefecture | Environnement

text \<open>Lines 120 to 131: the set \<^verbatim>\<open>categories\<close> of one domain, built by five conditional adds.\<close>

definition categories_de :: "string \<Rightarrow> categorie set" where
  "categories_de domaine =
     (let categories = {};
          categories = (if any_in mots_cles_ministere domaine
                        then insert Ministere categories else categories);
          categories = (if any_in mots_cles_region domaine
                        then insert Region categories else categories);
          categories = (if any_in mots_cles_service domaine
                        then insert Service categories else categories);
          categories = (if str_in ''.pref.'' domaine
                        then insert Prefecture categories else categories);
          categories = (if str_in ''developpement-durable'' domaine \<or> str_in ''ecologie.'' domaine
                        then insert Environnement categories else categories)
      in categories)"

text \<open>
  Lines 134 to 145: the counters after one domain. \<^verbatim>\<open>list(categories)[0]\<close> is the only
  element of a set of size 1.
\<close>

definition maj_compteurs :: "analyse \<Rightarrow> string \<Rightarrow> analyse" where
  "maj_compteurs a domaine =
     (let categories = categories_de domaine in
      if card categories = 1 then
        (let categorie = the_elem categories in
         if categorie = Ministere then a\<lparr>ministere_uniquement := ministere_uniquement a + 1\<rparr>
         else if categorie = Region then a\<lparr>region_uniquement := region_uniquement a + 1\<rparr>
         else if categorie = Service then a\<lparr>service_uniquement := service_uniquement a + 1\<rparr>
         else if categorie = Prefecture
              then a\<lparr>prefecture_uniquement := prefecture_uniquement a + 1\<rparr>
         else a)
      else if card categories > 1 then a\<lparr>nombre_chevauchement := nombre_chevauchement a + 1\<rparr>
      else a)"

text \<open>\<^verbatim>\<open>sum(1 for d in ds if p(d))\<close>\<close>

definition compter :: "(string \<Rightarrow> bool) \<Rightarrow> string list \<Rightarrow> int" where
  "compter p ds = int (length (filter p ds))"

text \<open>Lines 81 to 105: the dictionary literal, whose three guarded entries can raise.\<close>

definition analyse_initiale :: "analyseur \<Rightarrow> erreur + analyse" where
  "analyse_initiale self =
     (case (if domaines self \<noteq> [] then max_len (domaines self) else Inr []) of
        Inl e \<Rightarrow> Inl e
      | Inr plus_long \<Rightarrow>
     (case (if domaines self \<noteq> [] then min_len (domaines self) else Inr []) of
        Inl e \<Rightarrow> Inl e
      | Inr plus_court \<Rightarrow>
     (case (if domaines self \<noteq> []
            then truediv_round1 (sum_list (map (\<lambda>d. int (length d)) (domaines self)))
                                (int (length (domaines self)))
            else Inr (Entier 0)) of
        Inl e \<Rightarrow> Inl e
      | Inr moyenne \<Rightarrow>
          Inr \<lparr>total_domaines = int (length (domaines self)),
               lignes_brutes_a = lignes_brutes self,
               nombre_manquant = lignes_brutes self - int (length (domaines self)),
               ministere_uniquement = 0, region_uniquement = 0, service_uniquement = 0,
               prefecture_uniquement = 0, nombre_chevauchement = 0,
               nombre_ministere = 0, nombre_region = 0, nombre_service = 0,
               nombre_prefecture = 0, nombre_developpement = 0,
               domaine_plus_long = plus_long, domaine_plus_court = plus_court,
               longueur_moyenne = moyenne, manquants_critiques = []\<rparr>)))"

text \<open>Lines 148 to 162: the five totals and the missing critical domains.\<close>

definition totaux :: "analyseur \<Rightarrow> analyse \<Rightarrow> analyse" where
  "totaux self a =
     a\<lparr>nombre_ministere := compter (any_in mots_cles_ministere) (domaines self),
       nombre_region := compter (any_in mots_cles_region) (domaines self),
       nombre_service := compter (any_in mots_cles_service) (domaines self),
       nombre_prefecture := compter (str_in ''.pref.'') (domaines self),
       nombre_developpement := compter (str_in ''developpement-durable'') (domaines self),
       manquants_critiques := filter (\<lambda>d. d \<notin> set (domaines self)) domaines_critiques\<rparr>"

definition analyser :: "analyseur \<Rightarrow> erreur + analyse" where
  "analyser self =
     (case analyse_initiale self of
        Inl e \<Rightarrow> Inl e
      | Inr a \<Rightarrow> Inr (totaux self (foldl maj_compteurs a (domaines self))))"

section \<open>What one line contributes\<close>

text \<open>
  Two notions used to state what the loader returns. \<open>domaine_accepte l\<close> is the domain
  that line \<open>l\<close> adds to the accepted set, if it adds one; \<open>rejetee l\<close> holds when line
  \<open>l\<close> is recorded in \<^verbatim>\<open>domaines_manquants\<close>.
\<close>

definition domaine_accepte :: "string \<Rightarrow> string option" where
  "domaine_accepte l =
     (if strip l = [] then None
      else (case partie_domaine (strip l) of
              Inl e \<Rightarrow> None
            | Inr p \<Rightarrow> if tld_valide (nettoyer (strip p)) then Some (nettoyer (strip p))
                       else None))"

definition rejetee :: "string \<Rightarrow> bool" where
  "rejetee l =
     (strip l \<noteq> [] \<and> domaine_accepte l = None \<and> \<not> startswith (strip l) ''#'')"

section \<open>Lemmas about the string operations and the loop\<close>

lemma strip_Nil_iff: "strip s = [] \<longleftrightarrow> list_all isspace s"
proof -
  let ?t = "dropWhile isspace s"
  have "(\<forall>x\<in>set ?t. isspace x) \<longleftrightarrow> ?t = []"
  proof
    assume a: "\<forall>x\<in>set ?t. isspace x"
    show "?t = []"
    proof (rule ccontr)
      assume n: "?t \<noteq> []"
      then have "\<not> isspace (hd ?t)" by (rule hd_dropWhile)
      moreover from n have "hd ?t \<in> set ?t" by (rule hd_in_set)
      ultimately show False using a by blast
    qed
  qed (auto dest: set_dropWhileD)
  then show ?thesis
    by (simp add: strip_def dropWhile_eq_Nil_conv list_all_iff)
qed

lemma strip_take: "strip s = take (length (strip s)) (dropWhile isspace s)"
proof -
  let ?t = "dropWhile isspace s"
  have "strip s = rev (drop (length (takeWhile isspace (rev ?t))) (rev ?t))"
    unfolding strip_def by (subst dropWhile_eq_drop) simp
  also have "\<dots> = take (length ?t - length (takeWhile isspace (rev ?t))) ?t"
    by (simp add: rev_drop)
  finally have e: "strip s = take (length ?t - length (takeWhile isspace (rev ?t))) ?t" .
  then show ?thesis by (metis length_take min.absorb2 take_all_iff nat_le_linear take_take)
qed

lemma strip_hd: "strip s \<noteq> [] \<Longrightarrow> \<not> isspace (hd (strip s))"
proof -
  assume a: "strip s \<noteq> []"
  let ?t = "dropWhile isspace s"
  have t: "?t \<noteq> []"
  proof
    assume "?t = []"
    then have "strip s = []" by (simp add: strip_def del: dropWhile_eq_Nil_conv)
    with a show False ..
  qed
  from a strip_take [of s] have "hd (strip s) = hd ?t"
    by (metis hd_take length_greater_0_conv)
  moreover from t have "\<not> isspace (hd ?t)" by (rule hd_dropWhile)
  ultimately show ?thesis by simp
qed

lemma isspace_tab: "isspace (CHR 0x09)"
  by (simp add: isspace_def)

lemma split_sep_hd:
  "c \<noteq> sep \<Longrightarrow> \<exists>w ws. split_sep sep (c # cs) = (c # w) # ws"
  by (cases "split_sep sep cs") auto

lemma partie_domaine_Cons:
  assumes "\<not> isspace c"
  shows "\<exists>w. partie_domaine (c # cs) = Inr (c # w)"
proof (cases "CHR 0x09 \<in> set (c # cs)")
  case True
  from assms isspace_tab have "c \<noteq> CHR 0x09" by auto
  from split_sep_hd [OF this, of cs] True show ?thesis
    by (auto simp: partie_domaine_def index0_def)
next
  case False
  with assms show ?thesis
    by (simp add: partie_domaine_def index0_def)
qed

lemma strip_Cons_nonspace: "\<not> isspace c \<Longrightarrow> strip (c # w) \<noteq> []"
  by (simp add: strip_Nil_iff)

lemma partie_domaine_strip:
  assumes "strip l \<noteq> []"
  shows "\<exists>p. partie_domaine (strip l) = Inr p \<and> p \<noteq> [] \<and> strip p \<noteq> []"
proof -
  from assms obtain c cs where e: "strip l = c # cs" by (cases "strip l") auto
  with strip_hd [OF assms] have "\<not> isspace c" by simp
  from partie_domaine_Cons [OF this, of cs] strip_Cons_nonspace [OF this] e
  show ?thesis by auto
qed

lemma strip_not_isspace: "strip l \<noteq> [] \<Longrightarrow> \<not> str_isspace (strip l)"
proof -
  assume a: "strip l \<noteq> []"
  then have "\<not> isspace (hd (strip l))" by (rule strip_hd)
  moreover from a have "hd (strip l) \<in> set (strip l)" by (rule hd_in_set)
  ultimately show ?thesis by (auto simp: str_isspace_def list_all_iff)
qed

lemma traiter_ligne_eq:
  "traiter_ligne i l acc =
     Inr (case domaine_accepte l of
            Some d \<Rightarrow> (insert d (fst acc), snd acc)
          | None \<Rightarrow> if rejetee l then (fst acc, snd acc @ [manquant i (strip l)]) else acc)"
proof (cases "strip l = []")
  case True
  then show ?thesis
    by (simp add: traiter_ligne_def domaine_accepte_def rejetee_def)
next
  case False
  from partie_domaine_strip [OF False] obtain p where
    p: "partie_domaine (strip l) = Inr p" "strip p \<noteq> []" by blast
  from False have "\<not> str_isspace (strip l)" by (rule strip_not_isspace)
  with False p show ?thesis
    by (simp add: traiter_ligne_def domaine_accepte_def rejetee_def)
qed

lemma boucle_eq:
  "boucle ils acc =
     Inr (fst acc \<union> {d. \<exists>l \<in> snd ` set ils. domaine_accepte l = Some d},
          snd acc @ map (\<lambda>(i, l). manquant i (strip l)) (filter (\<lambda>(i, l). rejetee l) ils))"
proof (induction ils arbitrary: acc)
  case Nil
  show ?case by simp
next
  case (Cons il ils)
  obtain i l where il: "il = (i, l)" by (cases il)
  show ?case
    unfolding il by (cases "domaine_accepte l") (auto simp: traiter_ligne_eq Cons.IH rejetee_def)
qed

lemma snd_set_enumerate: "snd ` set (enumerate n xs) = set xs"
  by (simp flip: set_map)

lemma charger_lignes_eq:
  "charger_lignes self lignes =
     Inr (self\<lparr>lignes_brutes := int (length (filter (\<lambda>l. strip l \<noteq> []) lignes)),
               domaines := sorted_list_of_set {d. \<exists>l \<in> set lignes. domaine_accepte l = Some d},
               domaines_manquants := domaines_manquants self @
                  map (\<lambda>(i, l). manquant i (strip l))
                      (filter (\<lambda>(i, l). rejetee l) (enumerate 1 lignes))\<rparr>)"
  by (simp add: charger_lignes_def boucle_eq snd_set_enumerate)

lemma charger_domaines_eq:
  "charger_domaines self (Inr contenu) =
     Inr (self\<lparr>lignes_brutes := int (length (filter (\<lambda>l. strip l \<noteq> []) (readlines contenu))),
               domaines := sorted_list_of_set
                  {d. \<exists>l \<in> set (readlines contenu). domaine_accepte l = Some d},
               domaines_manquants := domaines_manquants self @
                  map (\<lambda>(i, l). manquant i (strip l))
                      (filter (\<lambda>(i, l). rejetee l) (enumerate 1 (readlines contenu)))\<rparr>)"
  by (simp add: charger_domaines_def charger_lignes_eq)

lemma finite_acceptes: "finite {d. \<exists>l \<in> set lignes. domaine_accepte l = Some d}"
proof -
  have "{d. \<exists>l \<in> set lignes. domaine_accepte l = Some d}
        \<subseteq> the ` domaine_accepte ` set lignes"
    by force
  then show ?thesis by (rule finite_subset) simp
qed

lemma lower_char_not_upper: "\<not> isupper (lower_char c)"
proof (cases "isupper c")
  case True
  then have "(of_char c :: nat) \<le> 222" by (auto simp: isupper_def Let_def)
  then have "(of_char (char_of (of_char c + 32 :: nat)) :: nat) = of_char c + 32" by simp
  with True show ?thesis by (auto simp: lower_char_def isupper_def Let_def)
next
  case False
  then show ?thesis by (simp add: lower_char_def)
qed

lemma lower_fixed: "list_all (\<lambda>c. \<not> isupper c) d \<Longrightarrow> lower d = d"
  by (induction d) (auto simp: lower_def lower_char_def)

lemma set_replace_str: "set (replace_str old [] s) \<subseteq> set s"
proof (induction old "[] :: string" s rule: replace_str.induct)
  case (1 old)
  show ?case by simp
next
  case (2 old c cs)
  show ?case
  proof (cases "old = []")
    case True
    with 2 show ?thesis by auto
  next
    case False
    show ?thesis
    proof (cases "startswith (c # cs) old")
      case True
      with False 2 have "set (replace_str old [] (drop (length old - 1) cs)) \<subseteq> set (drop (length old - 1) cs)"
        by simp
      also have "\<dots> \<subseteq> set cs" by (rule set_drop_subset)
      finally show ?thesis using False True by auto
    next
      case n: False
      with False 2 show ?thesis by auto
    qed
  qed
qed

lemma nettoyer_chars:
  "c \<in> set (nettoyer p) \<Longrightarrow> \<not> isupper c \<and> isprintable c \<and> \<not> isspace c"
proof -
  assume a: "c \<in> set (nettoyer p)"
  then have "c \<in> set (replace_str ''www.'' [] (lower p))" by (simp add: nettoyer_def)
  with set_replace_str have "c \<in> set (lower p)" by blast
  then have "\<not> isupper c" by (auto simp: lower_def lower_char_not_upper)
  with a show ?thesis by (simp add: nettoyer_def)
qed

lemma nettoyer_normal:
  "lower (nettoyer p) = nettoyer p \<and> list_all (\<lambda>c. isprintable c \<and> \<not> isspace c) (nettoyer p)"
proof -
  have "list_all (\<lambda>c. \<not> isupper c) (nettoyer p)"
    using nettoyer_chars by (auto simp: list_all_iff)
  then have "lower (nettoyer p) = nettoyer p" by (rule lower_fixed)
  moreover have "list_all (\<lambda>c. isprintable c \<and> \<not> isspace c) (nettoyer p)"
    using nettoyer_chars by (auto simp: list_all_iff)
  ultimately show ?thesis ..
qed

lemma domaine_accepte_SomeD:
  assumes "domaine_accepte l = Some d"
  shows "strip l \<noteq> [] \<and> tld_valide d \<and> (\<exists>p. partie_domaine (strip l) = Inr p \<and> d = nettoyer (strip p))"
  using assms by (auto simp: domaine_accepte_def split: if_splits sum.splits)

lemma set_domaines_charger:
  assumes "charger_domaines self (Inr contenu) = Inr self'"
  shows "set (domaines self') = {d. \<exists>l \<in> set (readlines contenu). domaine_accepte l = Some d}"
  using assms finite_acceptes [of "readlines contenu"]
  by (auto simp: charger_domaines_eq)

lemma card_acceptes:
  "card {d. \<exists>l \<in> set lignes. domaine_accepte l = Some d} \<le> length (filter (\<lambda>l. strip l \<noteq> []) lignes)"
proof -
  let ?nb = "filter (\<lambda>l. strip l \<noteq> []) lignes"
  have "{d. \<exists>l \<in> set lignes. domaine_accepte l = Some d} \<subseteq> (\<lambda>l. the (domaine_accepte l)) ` set ?nb"
    using domaine_accepte_SomeD by force
  then have "card {d. \<exists>l \<in> set lignes. domaine_accepte l = Some d} \<le> card ((\<lambda>l. the (domaine_accepte l)) ` set ?nb)"
    by (intro card_mono) simp_all
  also have "\<dots> \<le> card (set ?nb)" by (rule card_image_le) simp
  also have "\<dots> \<le> length ?nb" by (rule card_length)
  finally show ?thesis .
qed

lemma length_domaines_charger:
  assumes "charger_domaines self (Inr contenu) = Inr self'"
  shows "int (length (domaines self')) \<le> lignes_brutes self'"
  using assms card_acceptes [of "readlines contenu"]
  by (auto simp: charger_domaines_eq)

lemma split_ws_first:
  "strip l \<noteq> [] \<Longrightarrow> \<exists>w ws. split_ws (strip l) = w # ws \<and> w \<noteq> []"
proof -
  assume a: "strip l \<noteq> []"
  then obtain c cs where e: "strip l = c # cs" by (cases "strip l") auto
  with strip_hd [OF a] have "\<not> isspace c" by simp
  with e show ?thesis by simp
qed


section \<open>Lemmas about \<^verbatim>\<open>replace('www.', '')\<close>\<close>

lemma str_in_drop: "str_in x (drop n s) \<Longrightarrow> str_in x s"
proof (induction s arbitrary: n)
  case Nil
  then show ?case by simp
next
  case (Cons c cs)
  show ?case
  proof (cases n)
    case 0
    with Cons.prems show ?thesis by simp
  next
    case (Suc m)
    with Cons.prems have "str_in x (drop m cs)" by simp
    then have "str_in x cs" by (rule Cons.IH)
    then show ?thesis by simp
  qed
qed

lemma replace_www_match:
  "startswith (c # cs) ''www.'' \<Longrightarrow>
     replace_str ''www.'' [] (c # cs) = replace_str ''www.'' [] (drop 3 cs)"
  by (simp add: numeral_3_eq_3)

lemma replace_www_skip:
  "\<not> startswith (c # cs) ''www.'' \<Longrightarrow>
     replace_str ''www.'' [] (c # cs) = c # replace_str ''www.'' [] cs"
  by auto

lemma www_step0:
  assumes "startswith (replace_str ''www.'' [] cs) ''.''"
    and "\<not> str_in ''wwww.'' (CHR ''w'' # cs)"
  shows "startswith cs ''.''"
proof (cases cs)
  case Nil
  with assms(1) show ?thesis by simp
next
  case (Cons d ds)
  from assms(2) Cons have "\<not> startswith (d # ds) ''www.''" by simp
  then have "replace_str ''www.'' [] (d # ds) = d # replace_str ''www.'' [] ds"
    by (rule replace_www_skip)
  with assms(1) Cons have "startswith (d # replace_str ''www.'' [] ds) ''.''" by simp
  with Cons show ?thesis by simp
qed

lemma www_step1:
  assumes "startswith (replace_str ''www.'' [] cs) ''w.''"
    and "\<not> str_in ''wwww.'' (CHR ''w'' # cs)"
  shows "startswith cs ''w.''"
proof (cases cs)
  case Nil
  with assms(1) show ?thesis by simp
next
  case (Cons d ds)
  from assms(2) Cons have "\<not> startswith (d # ds) ''www.''" by simp
  then have "replace_str ''www.'' [] (d # ds) = d # replace_str ''www.'' [] ds"
    by (rule replace_www_skip)
  with assms(1) Cons have "startswith (d # replace_str ''www.'' [] ds) ''w.''" by simp
  then have d: "d = CHR ''w''" and r: "startswith (replace_str ''www.'' [] ds) ''.''"
    by simp_all
  from assms(2) Cons d have "\<not> str_in ''wwww.'' (CHR ''w'' # ds)" by simp
  with r have "startswith ds ''.''" by (rule www_step0)
  with Cons d show ?thesis by simp
qed

lemma www_step2:
  assumes "startswith (replace_str ''www.'' [] cs) ''ww.''"
    and "\<not> str_in ''wwww.'' (CHR ''w'' # cs)"
  shows "startswith cs ''ww.''"
proof (cases cs)
  case Nil
  with assms(1) show ?thesis by simp
next
  case (Cons d ds)
  from assms(2) Cons have "\<not> startswith (d # ds) ''www.''" by simp
  then have "replace_str ''www.'' [] (d # ds) = d # replace_str ''www.'' [] ds"
    by (rule replace_www_skip)
  with assms(1) Cons have "startswith (d # replace_str ''www.'' [] ds) ''ww.''" by simp
  then have d: "d = CHR ''w''" and r: "startswith (replace_str ''www.'' [] ds) ''w.''"
    by simp_all
  from assms(2) Cons d have "\<not> str_in ''wwww.'' (CHR ''w'' # ds)" by simp
  with r have "startswith ds ''w.''" by (rule www_step1)
  with Cons d show ?thesis by simp
qed

lemma replace_www_free:
  "\<not> str_in ''wwww.'' s \<Longrightarrow> \<not> str_in ''www.'' (replace_str ''www.'' [] s)"
proof (induction s rule: length_induct)
  case (1 s)
  show ?case
  proof (cases s)
    case Nil
    then show ?thesis by simp
  next
    case (Cons c cs)
    show ?thesis
    proof (cases "startswith (c # cs) ''www.''")
      case True
      have "\<not> str_in ''wwww.'' (drop 3 cs)"
      proof
        assume "str_in ''wwww.'' (drop 3 cs)"
        then have "str_in ''wwww.'' cs" by (rule str_in_drop)
        with "1.prems" Cons show False by simp
      qed
      moreover have "length (drop 3 cs) < length s" using Cons by simp
      ultimately have "\<not> str_in ''www.'' (replace_str ''www.'' [] (drop 3 cs))"
        using "1.IH" by blast
      with replace_www_match [OF True] Cons show ?thesis by simp
    next
      case False
      from "1.prems" Cons have nc: "\<not> str_in ''wwww.'' cs" by simp
      with "1.IH" Cons have ih: "\<not> str_in ''www.'' (replace_str ''www.'' [] cs)" by simp
      have "\<not> startswith (c # replace_str ''www.'' [] cs) ''www.''"
      proof
        assume a: "startswith (c # replace_str ''www.'' [] cs) ''www.''"
        then have c: "c = CHR ''w''" and r: "startswith (replace_str ''www.'' [] cs) ''ww.''"
          by simp_all
        from "1.prems" Cons c have "\<not> str_in ''wwww.'' (CHR ''w'' # cs)" by simp
        with r have "startswith cs ''ww.''" by (rule www_step2)
        with c False show False by simp
      qed
      with ih have "\<not> str_in ''www.'' (c # replace_str ''www.'' [] cs)" by simp
      with replace_www_skip [OF False] Cons show ?thesis by simp
    qed
  qed
qed

lemma nettoyer_www_free:
  assumes "list_all (\<lambda>c. isprintable c \<and> \<not> isspace c) (lower p)"
    and "\<not> str_in ''wwww.'' (lower p)"
  shows "\<not> str_in ''www.'' (nettoyer p)"
proof -
  from assms(1) set_replace_str [of "''www.''" "lower p"]
  have "\<forall>c \<in> set (replace_str ''www.'' [] (lower p)). isprintable c \<and> \<not> isspace c"
    by (auto simp: list_all_iff)
  then have "nettoyer p = replace_str ''www.'' [] (lower p)"
    unfolding nettoyer_def by (intro filter_True) simp
  with replace_www_free [OF assms(2)] show ?thesis by simp
qed

section \<open>Lemmas about the analysis\<close>

lemma max_len_Inr: "ds \<noteq> [] \<Longrightarrow> \<exists>m. max_len ds = Inr m"
  by (cases ds) auto

lemma min_len_Inr: "ds \<noteq> [] \<Longrightarrow> \<exists>m. min_len ds = Inr m"
  by (cases ds) auto

lemma analyse_initiale_Inr:
  "\<exists>pl pc m. analyse_initiale self =
     Inr \<lparr>total_domaines = int (length (domaines self)),
          lignes_brutes_a = lignes_brutes self,
          nombre_manquant = lignes_brutes self - int (length (domaines self)),
          ministere_uniquement = 0, region_uniquement = 0, service_uniquement = 0,
          prefecture_uniquement = 0, nombre_chevauchement = 0,
          nombre_ministere = 0, nombre_region = 0, nombre_service = 0,
          nombre_prefecture = 0, nombre_developpement = 0,
          domaine_plus_long = pl, domaine_plus_court = pc,
          longueur_moyenne = m, manquants_critiques = []\<rparr> \<and>
     (domaines self = [] \<longrightarrow> pl = [] \<and> pc = [] \<and> m = Entier 0)"
proof (cases "domaines self = []")
  case True
  then show ?thesis by (simp add: analyse_initiale_def)
next
  case False
  from max_len_Inr [OF False] obtain pl where pl: "max_len (domaines self) = Inr pl" ..
  from min_len_Inr [OF False] obtain pc where pc: "min_len (domaines self) = Inr pc" ..
  from False pl pc show ?thesis
    by (simp add: analyse_initiale_def truediv_round1_def)
qed

lemma finite_categories_de: "finite (categories_de d)"
  by (simp add: categories_de_def Let_def)

lemma maj_compteurs_eq:
  "maj_compteurs a d =
     (if 2 \<le> card (categories_de d) then a\<lparr>nombre_chevauchement := nombre_chevauchement a + 1\<rparr>
      else if categories_de d = {Ministere} then a\<lparr>ministere_uniquement := ministere_uniquement a + 1\<rparr>
      else if categories_de d = {Region} then a\<lparr>region_uniquement := region_uniquement a + 1\<rparr>
      else if categories_de d = {Service} then a\<lparr>service_uniquement := service_uniquement a + 1\<rparr>
      else if categories_de d = {Prefecture} then a\<lparr>prefecture_uniquement := prefecture_uniquement a + 1\<rparr>
      else a)"
proof -
  consider "card (categories_de d) = 0" | "card (categories_de d) = 1" | "2 \<le> card (categories_de d)"
    by linarith
  then show ?thesis
  proof cases
    case 1
    with finite_categories_de [of d] have "categories_de d = {}" by simp
    then show ?thesis by (simp add: maj_compteurs_def)
  next
    case 2
    then obtain x where x: "categories_de d = {x}" by (auto simp: card_1_singleton_iff)
    then show ?thesis by (cases x) (simp_all add: maj_compteurs_def)
  next
    case 3
    then show ?thesis by (simp add: maj_compteurs_def)
  qed
qed

lemma foldl_maj_compteurs:
  "foldl maj_compteurs a ds =
     a\<lparr>ministere_uniquement :=
         ministere_uniquement a + compter (\<lambda>d. categories_de d = {Ministere}) ds,
       region_uniquement :=
         region_uniquement a + compter (\<lambda>d. categories_de d = {Region}) ds,
       service_uniquement :=
         service_uniquement a + compter (\<lambda>d. categories_de d = {Service}) ds,
       prefecture_uniquement :=
         prefecture_uniquement a + compter (\<lambda>d. categories_de d = {Prefecture}) ds,
       nombre_chevauchement :=
         nombre_chevauchement a + compter (\<lambda>d. 2 \<le> card (categories_de d)) ds\<rparr>"
proof (induction ds arbitrary: a)
  case Nil
  show ?case by (simp add: compter_def)
next
  case (Cons d ds)
  have "foldl maj_compteurs a (d # ds) = foldl maj_compteurs (maj_compteurs a d) ds"
    by simp
  also note Cons.IH [of "maj_compteurs a d"]
  finally show ?case
    by (simp add: maj_compteurs_eq [of a d] compter_def)
qed

lemma compter_disjoint:
  "compter (\<lambda>d. categories_de d = {Ministere}) ds + compter (\<lambda>d. categories_de d = {Region}) ds +
   compter (\<lambda>d. categories_de d = {Service}) ds + compter (\<lambda>d. categories_de d = {Prefecture}) ds +
   compter (\<lambda>d. 2 \<le> card (categories_de d)) ds \<le> int (length ds)"
  by (induction ds) (auto simp: compter_def)

lemma analyser_eq:
  "\<exists>a0. analyse_initiale self = Inr a0 \<and>
     analyser self = Inr (totaux self (foldl maj_compteurs a0 (domaines self)))"
  using analyse_initiale_Inr [of self] by (auto simp: analyser_def)

lemma analyser_counters:
  "\<exists>a. analyser self = Inr a \<and>
     total_domaines a = int (length (domaines self)) \<and>
     lignes_brutes_a a = lignes_brutes self \<and>
     nombre_manquant a = lignes_brutes self - int (length (domaines self)) \<and>
     ministere_uniquement a = compter (\<lambda>d. categories_de d = {Ministere}) (domaines self) \<and>
     region_uniquement a = compter (\<lambda>d. categories_de d = {Region}) (domaines self) \<and>
     service_uniquement a = compter (\<lambda>d. categories_de d = {Service}) (domaines self) \<and>
     prefecture_uniquement a = compter (\<lambda>d. categories_de d = {Prefecture}) (domaines self) \<and>
     nombre_chevauchement a = compter (\<lambda>d. 2 \<le> card (categories_de d)) (domaines self) \<and>
     nombre_developpement a = compter (str_in ''developpement-durable'') (domaines self) \<and>
     (domaines self = [] \<longrightarrow>
        domaine_plus_long a = [] \<and> domaine_plus_court a = [] \<and> longueur_moyenne a = Entier 0)"
proof -
  from analyse_initiale_Inr [of self] obtain pl pc m where
    i: "analyse_initiale self =
     Inr \<lparr>total_domaines = int (length (domaines self)),
          lignes_brutes_a = lignes_brutes self,
          nombre_manquant = lignes_brutes self - int (length (domaines self)),
          ministere_uniquement = 0, region_uniquement = 0, service_uniquement = 0,
          prefecture_uniquement = 0, nombre_chevauchement = 0,
          nombre_ministere = 0, nombre_region = 0, nombre_service = 0,
          nombre_prefecture = 0, nombre_developpement = 0,
          domaine_plus_long = pl, domaine_plus_court = pc,
          longueur_moyenne = m, manquants_critiques = []\<rparr>"
    and e: "domaines self = [] \<longrightarrow> pl = [] \<and> pc = [] \<and> m = Entier 0"
    by blast
  show ?thesis
    using e by (simp add: analyser_def i foldl_maj_compteurs totaux_def)
qed

section \<open>The loader never fails on a file it could read\<close>

text \<open>
  Claim C10. Every line that is not blank after \<^verbatim>\<open>strip()\<close> has a non-empty first word
  and a non-empty domain part, with or without a tab, so neither \<^verbatim>\<open>split()[0]\<close> nor any
  later step of a turn of the loop raises; the loader returns for every file content, and
  it ends in \<^verbatim>\<open>sys.exit(1)\<close> only when opening or reading the file failed.
\<close>

theorem loader_total:
  "(strip l \<noteq> [] \<longrightarrow>
      (\<exists>w ws. split_ws (strip l) = w # ws \<and> w \<noteq> []) \<and>
      (\<exists>p. partie_domaine (strip l) = Inr p \<and> p \<noteq> [] \<and> strip p \<noteq> [])) \<and>
   (\<exists>acc'. traiter_ligne i l acc = Inr acc') \<and>
   (\<exists>self'. charger_domaines self (Inr contenu) = Inr self') \<and>
   (charger_domaines self fichier = Inl e \<longrightarrow> e = SystemExit 1 \<and> (\<exists>e'. fichier = Inl e')) \<and>
   charger_domaines self (Inl e') = Inl (SystemExit 1)"
proof -
  have "charger_domaines self fichier = Inl e \<longrightarrow> e = SystemExit 1 \<and> (\<exists>e'. fichier = Inl e')"
    by (cases fichier) (auto simp: charger_domaines_eq, simp add: charger_domaines_def)
  moreover have "charger_domaines self (Inl e') = Inl (SystemExit 1)"
    by (simp add: charger_domaines_def)
  ultimately show ?thesis
    using split_ws_first [of l] partie_domaine_strip [of l]
    by (simp add: traiter_ligne_eq charger_domaines_eq)
qed

theorem loader_total_witness:
  "strip ''a.fr x'' \<noteq> [] \<and>
   (\<exists>w ws. split_ws (strip ''a.fr x'') = w # ws \<and> w \<noteq> []) \<and>
   (\<exists>p. partie_domaine (strip ''a.fr x'') = Inr p \<and> p \<noteq> [] \<and> strip p \<noteq> []) \<and>
   charger_domaines (init ''sitesgouv.txt'') (Inl OSError) = Inl (SystemExit 1) \<and>
   (\<exists>e'. (Inl OSError :: erreur + string) = Inl e')"
proof -
  have h: "strip ''a.fr x'' \<noteq> []" by code_simp
  have k: "charger_domaines (init ''sitesgouv.txt'') (Inl OSError) = Inl (SystemExit 1)"
    by code_simp
  from h k loader_total [of "''a.fr x''" 1 "({}, [])" "init ''sitesgouv.txt''" "[]" "Inl OSError" "SystemExit 1" OSError]
  show ?thesis by blast
qed


section \<open>The accepted sequence is strictly sorted\<close>

text \<open>
  Claim C7. For every file content the loader's \<^verbatim>\<open>domaines\<close> is strictly ascending in
  the lexicographic order of code points, hence without duplicates.
\<close>

theorem accepted_strictly_sorted:
  assumes "charger_domaines self (Inr contenu) = Inr self'"
  shows "sorted_wrt (<) (domaines self') \<and> distinct (domaines self')"
  using assms by (auto simp: charger_domaines_eq)

theorem accepted_strictly_sorted_witness:
  "charger_domaines (init ''sitesgouv.txt'') (Inr ''b.fr\<newline>a.fr\<newline>B.FR\<newline>ab.fr'') =
     Inr \<lparr>source_file = ''sitesgouv.txt'', lignes_brutes = 4,
          domaines = [''a.fr'', ''ab.fr'', ''b.fr''], domaines_manquants = []\<rparr> \<and>
   sorted_wrt (<) [''a.fr'', ''ab.fr'', ''b.fr''] \<and> distinct [''a.fr'', ''ab.fr'', ''b.fr'']"
proof -
  have h: "charger_domaines (init ''sitesgouv.txt'') (Inr ''b.fr\<newline>a.fr\<newline>B.FR\<newline>ab.fr'') =
     Inr \<lparr>source_file = ''sitesgouv.txt'', lignes_brutes = 4,
          domaines = [''a.fr'', ''ab.fr'', ''b.fr''], domaines_manquants = []\<rparr>"
    by code_simp
  from accepted_strictly_sorted [OF h] h show ?thesis by simp
qed


section \<open>The form of the rejection records\<close>

text \<open>
  Claim C5. A new analyser given the single line \<^verbatim>\<open>notadomain\<close> accepts nothing and
  records exactly \<^verbatim>\<open>Ligne 1: notadomain...\<close>. For every analyser and content the records
  added are, in file order, one per rejected line: \<^verbatim>\<open>Ligne\<close>, the 1-based line number, a
  colon, the first 50 characters of the stripped line and three dots, whatever the
  length of the line.
\<close>

theorem rejection_records:
  "charger_domaines (init f) (Inr ''notadomain\<newline>'') =
     Inr \<lparr>source_file = f, lignes_brutes = 1, domaines = [],
          domaines_manquants = [''Ligne 1: notadomain...'']\<rparr> \<and>
   (\<exists>self'. charger_domaines self (Inr contenu) = Inr self' \<and>
      domaines_manquants self' = domaines_manquants self @
        map (\<lambda>(i, l). ''Ligne '' @ str_nat i @ '': '' @ take 50 (strip l) @ ''...'')
            (filter (\<lambda>(i, l). rejetee l) (enumerate 1 (readlines contenu))))"
proof -
  have r: "readlines ''notadomain\<newline>'' = [''notadomain\<newline>'']" by code_simp
  have s: "strip ''notadomain\<newline>'' = ''notadomain''" by code_simp
  have d: "domaine_accepte ''notadomain\<newline>'' = None" by code_simp
  have j: "rejetee ''notadomain\<newline>''" by code_simp
  have m: "manquant (Suc 0) ''notadomain'' = ''Ligne 1: notadomain...''" by code_simp
  have a: "charger_domaines (init f) (Inr ''notadomain\<newline>'') =
     Inr \<lparr>source_file = f, lignes_brutes = 1, domaines = [],
          domaines_manquants = [''Ligne 1: notadomain...'']\<rparr>"
    unfolding charger_domaines_eq r by (simp add: s d j m init_def)
  have b: "\<exists>self'. charger_domaines self (Inr contenu) = Inr self' \<and>
      domaines_manquants self' = domaines_manquants self @
        map (\<lambda>(i, l). ''Ligne '' @ str_nat i @ '': '' @ take 50 (strip l) @ ''...'')
            (filter (\<lambda>(i, l). rejetee l) (enumerate 1 (readlines contenu)))"
    by (simp add: charger_domaines_eq manquant_def)
  from a b show ?thesis ..
qed

theorem rejection_records_witness:
  "\<exists>self'. charger_domaines (init ''sitesgouv.txt'')
       (Inr ''# comment line\<newline>economie.gouv.fr\<newline>\<newline>0123456789012345678901234567890123456789012345678901234\<newline>x y'') = Inr self' \<and>
     domaines_manquants self' =
       [''Ligne 4: 01234567890123456789012345678901234567890123456789...'', ''Ligne 5: x y...'']"
proof -
  let ?c = "''# comment line\<newline>economie.gouv.fr\<newline>\<newline>0123456789012345678901234567890123456789012345678901234\<newline>x y''"
  have e: "domaines_manquants (init ''sitesgouv.txt'') @
        map (\<lambda>(i, l). ''Ligne '' @ str_nat i @ '': '' @ take 50 (strip l) @ ''...'')
            (filter (\<lambda>(i, l). rejetee l) (enumerate 1 (readlines ?c))) =
       [''Ligne 4: 01234567890123456789012345678901234567890123456789...'', ''Ligne 5: x y...'']"
    by code_simp
  from rejection_records [of "''sitesgouv.txt''" "init ''sitesgouv.txt''" ?c] e
  show ?thesis by simp
qed


section \<open>The loader's result is a function of the file content\<close>

text \<open>
  Claim C4. Two runs of the loader on the same content, each on an analyser as \<^verbatim>\<open>__init__\<close>
  builds it, give the same \<^verbatim>\<open>domaines\<close>, the same \<^verbatim>\<open>domaines_manquants\<close> and the same
  \<^verbatim>\<open>lignes_brutes\<close>, whatever the file names: the three are the functions of the content
  written below, in which the analyser does not occur.
\<close>

theorem loader_function_of_content:
  "(\<exists>s. charger_domaines (init f) (Inr contenu) = Inr s \<and>
        source_file s = f \<and>
        lignes_brutes s = int (length (filter (\<lambda>l. strip l \<noteq> []) (readlines contenu))) \<and>
        domaines s = sorted_list_of_set
           {d. \<exists>l \<in> set (readlines contenu). domaine_accepte l = Some d} \<and>
        domaines_manquants s =
           map (\<lambda>(i, l). manquant i (strip l))
               (filter (\<lambda>(i, l). rejetee l) (enumerate 1 (readlines contenu)))) \<and>
   (charger_domaines (init f) (Inr contenu) = Inr s1 \<and>
    charger_domaines (init g) (Inr contenu) = Inr s2 \<longrightarrow>
      domaines s1 = domaines s2 \<and> domaines_manquants s1 = domaines_manquants s2 \<and>
      lignes_brutes s1 = lignes_brutes s2)"
  by (auto simp: charger_domaines_eq init_def)

theorem loader_function_of_content_witness:
  "charger_domaines (init ''a.txt'') (Inr ''x.fr\<newline>notadomain\<newline>'') =
     Inr \<lparr>source_file = ''a.txt'', lignes_brutes = 2, domaines = [''x.fr''],
          domaines_manquants = [''Ligne 2: notadomain...'']\<rparr> \<and>
   charger_domaines (init ''b.txt'') (Inr ''x.fr\<newline>notadomain\<newline>'') =
     Inr \<lparr>source_file = ''b.txt'', lignes_brutes = 2, domaines = [''x.fr''],
          domaines_manquants = [''Ligne 2: notadomain...'']\<rparr> \<and>
   domaines \<lparr>source_file = ''a.txt'', lignes_brutes = 2, domaines = [''x.fr''],
          domaines_manquants = [''Ligne 2: notadomain...'']\<rparr> =
   domaines \<lparr>source_file = ''b.txt'', lignes_brutes = 2, domaines = [''x.fr''],
          domaines_manquants = [''Ligne 2: notadomain...'']\<rparr> \<and>
   domaines_manquants \<lparr>source_file = ''a.txt'', lignes_brutes = 2, domaines = [''x.fr''],
          domaines_manquants = [''Ligne 2: notadomain...'']\<rparr> =
   domaines_manquants \<lparr>source_file = ''b.txt'', lignes_brutes = 2, domaines = [''x.fr''],
          domaines_manquants = [''Ligne 2: notadomain...'']\<rparr>"
proof -
  let ?c = "''x.fr\<newline>notadomain\<newline>''"
  let ?s1 = "\<lparr>source_file = ''a.txt'', lignes_brutes = 2, domaines = [''x.fr''],
          domaines_manquants = [''Ligne 2: notadomain...'']\<rparr>"
  let ?s2 = "\<lparr>source_file = ''b.txt'', lignes_brutes = 2, domaines = [''x.fr''],
          domaines_manquants = [''Ligne 2: notadomain...'']\<rparr>"
  have a: "charger_domaines (init ''a.txt'') (Inr ?c) = Inr ?s1" by code_simp
  have b: "charger_domaines (init ''b.txt'') (Inr ?c) = Inr ?s2" by code_simp
  from loader_function_of_content [of "''a.txt''" ?c ?s1 "''b.txt''" ?s2] a b
  have "domaines ?s1 = domaines ?s2 \<and> domaines_manquants ?s1 = domaines_manquants ?s2"
    by blast
  with a b show ?thesis by blast
qed


section \<open>The normal form of an accepted domain\<close>

text \<open>
  Claim C2, amended. Every accepted domain is unchanged by \<^verbatim>\<open>lower()\<close>, has no whitespace
  and no non-printable character, and ends with one of the six suffixes. It is the
  domain part of some line after \<^verbatim>\<open>lower()\<close>, one pass of \<^verbatim>\<open>replace('www.', '')\<close> and the
  character filter, and it has no \<^verbatim>\<open>www.\<close> left when the lowercased domain part has
  neither \<^verbatim>\<open>wwww.\<close> nor a character that the filter removes.
\<close>

theorem accepted_domain_normal_form:
  assumes "charger_domaines self (Inr contenu) = Inr self'" and "d \<in> set (domaines self')"
  shows "lower d = d \<and>
         list_all (\<lambda>c. isprintable c \<and> \<not> isspace c) d \<and>
         list_ex (endswith d) tld_valides \<and>
         (\<exists>l p. l \<in> set (readlines contenu) \<and> partie_domaine (strip l) = Inr p \<and>
            d = nettoyer (strip p) \<and>
            (list_all (\<lambda>c. isprintable c \<and> \<not> isspace c) (lower (strip p)) \<and>
             \<not> str_in ''wwww.'' (lower (strip p)) \<longrightarrow> \<not> str_in ''www.'' d))"
proof -
  from assms set_domaines_charger [OF assms(1)] obtain l where
    l: "l \<in> set (readlines contenu)" "domaine_accepte l = Some d" by auto
  from domaine_accepte_SomeD [OF l(2)] obtain p where
    p: "tld_valide d" "partie_domaine (strip l) = Inr p" "d = nettoyer (strip p)" by blast
  from p(3) nettoyer_normal [of "strip p"] have
    "lower d = d" "list_all (\<lambda>c. isprintable c \<and> \<not> isspace c) d" by simp_all
  moreover from p(1) have "list_ex (endswith d) tld_valides" by (simp add: tld_valide_def)
  moreover from p(3) nettoyer_www_free [of "strip p"] have
    "list_all (\<lambda>c. isprintable c \<and> \<not> isspace c) (lower (strip p)) \<and>
       \<not> str_in ''wwww.'' (lower (strip p)) \<longrightarrow> \<not> str_in ''www.'' d" by simp
  ultimately show ?thesis using l(1) p(2) p(3) by blast
qed

theorem accepted_domain_normal_form_witness:
  "charger_domaines (init ''sitesgouv.txt'') (Inr ''WWW.Sante.Gouv.Fr  \<newline>'') =
     Inr \<lparr>source_file = ''sitesgouv.txt'', lignes_brutes = 1,
          domaines = [''sante.gouv.fr''], domaines_manquants = []\<rparr> \<and>
   lower ''sante.gouv.fr'' = ''sante.gouv.fr'' \<and>
   list_all (\<lambda>c. isprintable c \<and> \<not> isspace c) ''sante.gouv.fr'' \<and>
   list_ex (endswith ''sante.gouv.fr'') tld_valides \<and>
   \<not> str_in ''www.'' ''sante.gouv.fr''"
proof -
  let ?c = "''WWW.Sante.Gouv.Fr  \<newline>''"
  let ?s = "\<lparr>source_file = ''sitesgouv.txt'', lignes_brutes = 1,
          domaines = [''sante.gouv.fr''], domaines_manquants = []\<rparr>"
  have h: "charger_domaines (init ''sitesgouv.txt'') (Inr ?c) = Inr ?s" by code_simp
  have m: "''sante.gouv.fr'' \<in> set (domaines ?s)" by simp
  have r: "readlines ?c = [?c]" by code_simp
  have q: "partie_domaine (strip ?c) = Inr ''WWW.Sante.Gouv.Fr''" by code_simp
  have k: "list_all (\<lambda>c. isprintable c \<and> \<not> isspace c) (lower (strip ''WWW.Sante.Gouv.Fr'')) \<and>
           \<not> str_in ''wwww.'' (lower (strip ''WWW.Sante.Gouv.Fr''))" by code_simp
  from accepted_domain_normal_form [OF h m] obtain l p where
    n: "lower ''sante.gouv.fr'' = ''sante.gouv.fr''"
       "list_all (\<lambda>c. isprintable c \<and> \<not> isspace c) ''sante.gouv.fr''"
       "list_ex (endswith ''sante.gouv.fr'') tld_valides"
    and l: "l \<in> set (readlines ?c)" and p: "partie_domaine (strip l) = Inr p"
    and w: "list_all (\<lambda>c. isprintable c \<and> \<not> isspace c) (lower (strip p)) \<and>
             \<not> str_in ''wwww.'' (lower (strip p)) \<longrightarrow> \<not> str_in ''www.'' ''sante.gouv.fr''"
    by blast
  from l r have "l = ?c" by simp
  with p q have "p = ''WWW.Sante.Gouv.Fr''" by simp
  with w k have "\<not> str_in ''www.'' ''sante.gouv.fr''" by blast
  with h n show ?thesis by blast
qed

text \<open>
  Without that condition \<^verbatim>\<open>www.\<close> can remain: the single pass removes the occurrence at
  index 1 of \<^verbatim>\<open>wwww.ww..fr\<close> and does not look at its own result.
\<close>

theorem www_remains_counterexample:
  "charger_domaines (init ''sitesgouv.txt'') (Inr ''wwww.ww..fr\<newline>'') =
     Inr \<lparr>source_file = ''sitesgouv.txt'', lignes_brutes = 1,
          domaines = [''www..fr''], domaines_manquants = []\<rparr> \<and>
   str_in ''www.'' ''www..fr''"
  by code_simp


section \<open>The category counters\<close>

text \<open>
  Claim C1, amended. The set \<^verbatim>\<open>categories\<close> of a domain ranges over all five categories,
  environment included. The overlap counter goes up exactly for the domains in two or
  more of the five; the counter of ministry, region, service or prefecture goes up exactly
  for the domains whose only category, among the five, is that one; a domain in the
  environment category alone moves no counter.
\<close>

theorem category_counters:
  "maj_compteurs a d =
     (if 2 \<le> card (categories_de d) then a\<lparr>nombre_chevauchement := nombre_chevauchement a + 1\<rparr>
      else if categories_de d = {Ministere} then a\<lparr>ministere_uniquement := ministere_uniquement a + 1\<rparr>
      else if categories_de d = {Region} then a\<lparr>region_uniquement := region_uniquement a + 1\<rparr>
      else if categories_de d = {Service} then a\<lparr>service_uniquement := service_uniquement a + 1\<rparr>
      else if categories_de d = {Prefecture} then a\<lparr>prefecture_uniquement := prefecture_uniquement a + 1\<rparr>
      else a) \<and>
   (Environnement \<in> categories_de d \<longleftrightarrow>
      str_in ''developpement-durable'' d \<or> str_in ''ecologie.'' d) \<and>
   (\<exists>r. analyser self = Inr r \<and>
      nombre_chevauchement r = compter (\<lambda>d. 2 \<le> card (categories_de d)) (domaines self) \<and>
      ministere_uniquement r = compter (\<lambda>d. categories_de d = {Ministere}) (domaines self) \<and>
      region_uniquement r = compter (\<lambda>d. categories_de d = {Region}) (domaines self) \<and>
      service_uniquement r = compter (\<lambda>d. categories_de d = {Service}) (domaines self) \<and>
      prefecture_uniquement r = compter (\<lambda>d. categories_de d = {Prefecture}) (domaines self))"
proof -
  have "Environnement \<in> categories_de d \<longleftrightarrow>
      str_in ''developpement-durable'' d \<or> str_in ''ecologie.'' d"
    by (simp add: categories_de_def Let_def)
  moreover from analyser_counters [of self] have
    "\<exists>r. analyser self = Inr r \<and>
      nombre_chevauchement r = compter (\<lambda>d. 2 \<le> card (categories_de d)) (domaines self) \<and>
      ministere_uniquement r = compter (\<lambda>d. categories_de d = {Ministere}) (domaines self) \<and>
      region_uniquement r = compter (\<lambda>d. categories_de d = {Region}) (domaines self) \<and>
      service_uniquement r = compter (\<lambda>d. categories_de d = {Service}) (domaines self) \<and>
      prefecture_uniquement r = compter (\<lambda>d. categories_de d = {Prefecture}) (domaines self)"
    by blast
  ultimately show ?thesis using maj_compteurs_eq [of a d] by blast
qed

theorem category_counters_witness:
  "\<exists>r. analyser \<lparr>source_file = ''sitesgouv.txt'', lignes_brutes = 4,
          domaines = [''ecologie.gouv.fr'', ''logement.ecologie.gouv.fr'', ''sante.gouv.fr'',
                      ''x.pref.gouv.fr''],
          domaines_manquants = []\<rparr> = Inr r \<and>
       nombre_chevauchement r = 1 \<and> ministere_uniquement r = 1 \<and> region_uniquement r = 0 \<and>
       service_uniquement r = 0 \<and> prefecture_uniquement r = 1"
proof -
  let ?ds = "[''ecologie.gouv.fr'', ''logement.ecologie.gouv.fr'', ''sante.gouv.fr'',
              ''x.pref.gouv.fr'']"
  let ?s = "\<lparr>source_file = ''sitesgouv.txt'', lignes_brutes = 4, domaines = ?ds,
             domaines_manquants = []\<rparr>"
  have c: "compter (\<lambda>d. 2 \<le> card (categories_de d)) ?ds = 1"
          "compter (\<lambda>d. categories_de d = {Ministere}) ?ds = 1"
          "compter (\<lambda>d. categories_de d = {Region}) ?ds = 0"
          "compter (\<lambda>d. categories_de d = {Service}) ?ds = 0"
          "compter (\<lambda>d. categories_de d = {Prefecture}) ?ds = 1"
    by code_simp+
  from category_counters [of _ _ ?s] c show ?thesis by simp
qed

text \<open>
  The claim as stated leaves the environment category out of the count. The domain below
  is in one of the four primary categories only, and the code counts it as an overlap.
\<close>

theorem environment_counted_counterexample:
  "charger_domaines (init ''sitesgouv.txt'') (Inr ''logement.ecologie.gouv.fr\<newline>'') =
     Inr \<lparr>source_file = ''sitesgouv.txt'', lignes_brutes = 1,
          domaines = [''logement.ecologie.gouv.fr''], domaines_manquants = []\<rparr> \<and>
   categories_de ''logement.ecologie.gouv.fr'' - {Environnement} = {Ministere} \<and>
   analyser \<lparr>source_file = ''sitesgouv.txt'', lignes_brutes = 1,
             domaines = [''logement.ecologie.gouv.fr''], domaines_manquants = []\<rparr> =
     Inr \<lparr>total_domaines = 1, lignes_brutes_a = 1, nombre_manquant = 0,
          ministere_uniquement = 0, region_uniquement = 0, service_uniquement = 0,
          prefecture_uniquement = 0, nombre_chevauchement = 1,
          nombre_ministere = 1, nombre_region = 0, nombre_service = 0,
          nombre_prefecture = 0, nombre_developpement = 0,
          domaine_plus_long = ''logement.ecologie.gouv.fr'',
          domaine_plus_court = ''logement.ecologie.gouv.fr'',
          longueur_moyenne = Arrondi1 25 1, manquants_critiques = domaines_critiques\<rparr>"
  by code_simp


section \<open>The counters never exceed the number of domains\<close>

text \<open>
  Claim C8. For every list of accepted domains, the four \<^verbatim>\<open>_uniquement\<close> counters and
  \<^verbatim>\<open>nombre_chevauchement\<close> sum to at most \<^verbatim>\<open>total_domaines\<close>.
\<close>

theorem counters_bounded:
  "\<exists>a. analyser self = Inr a \<and>
     ministere_uniquement a + region_uniquement a + service_uniquement a +
     prefecture_uniquement a + nombre_chevauchement a \<le> total_domaines a"
proof -
  from analyser_counters [of self] obtain a where
    "analyser self = Inr a"
    "total_domaines a = int (length (domaines self))"
    "ministere_uniquement a = compter (\<lambda>d. categories_de d = {Ministere}) (domaines self)"
    "region_uniquement a = compter (\<lambda>d. categories_de d = {Region}) (domaines self)"
    "service_uniquement a = compter (\<lambda>d. categories_de d = {Service}) (domaines self)"
    "prefecture_uniquement a = compter (\<lambda>d. categories_de d = {Prefecture}) (domaines self)"
    "nombre_chevauchement a = compter (\<lambda>d. 2 \<le> card (categories_de d)) (domaines self)"
    by blast
  with compter_disjoint [of "domaines self"] show ?thesis by auto
qed

theorem counters_bounded_witness:
  "\<exists>a. analyser \<lparr>source_file = ''sitesgouv.txt'', lignes_brutes = 4,
          domaines = [''ecologie.gouv.fr'', ''logement.ecologie.gouv.fr'', ''sante.gouv.fr'',
                      ''x.pref.gouv.fr''],
          domaines_manquants = []\<rparr> = Inr a \<and>
       total_domaines a = 4 \<and>
       ministere_uniquement a + region_uniquement a + service_uniquement a +
       prefecture_uniquement a + nombre_chevauchement a \<le> total_domaines a"
proof -
  let ?s = "\<lparr>source_file = ''sitesgouv.txt'', lignes_brutes = 4,
          domaines = [''ecologie.gouv.fr'', ''logement.ecologie.gouv.fr'', ''sante.gouv.fr'',
                      ''x.pref.gouv.fr''],
          domaines_manquants = []\<rparr>"
  from counters_bounded [of ?s] obtain a where
    a: "analyser ?s = Inr a"
       "ministere_uniquement a + region_uniquement a + service_uniquement a +
        prefecture_uniquement a + nombre_chevauchement a \<le> total_domaines a"
    by blast
  have "map_sum id total_domaines (analyser ?s) = Inr 4" by code_simp
  with a(1) have "total_domaines a = 4" by simp
  with a show ?thesis by blast
qed


section \<open>The analysis of an empty list\<close>

text \<open>
  Claim C6. The analysis never raises. When \<^verbatim>\<open>domaines\<close> is empty the longest and the
  shortest domain are the empty string and the mean is the integer 0; after loading an
  empty file the raw line count, the accepted count and the missing count are 0 as well.
\<close>

theorem empty_analysis:
  "(\<exists>a. analyser self = Inr a \<and>
      (domaines self = [] \<longrightarrow>
         domaine_plus_long a = [] \<and> domaine_plus_court a = [] \<and> longueur_moyenne a = Entier 0)) \<and>
   (\<exists>self' a. charger_domaines self (Inr []) = Inr self' \<and> analyser self' = Inr a \<and>
      lignes_brutes_a a = 0 \<and> total_domaines a = 0 \<and> nombre_manquant a = 0 \<and>
      domaine_plus_long a = [] \<and> domaine_plus_court a = [] \<and> longueur_moyenne a = Entier 0)"
proof -
  let ?s = "self\<lparr>lignes_brutes := 0, domaines := [],
                 domaines_manquants := domaines_manquants self\<rparr>"
  have r: "readlines [] = []" by (simp add: readlines_def)
  have c: "charger_domaines self (Inr []) = Inr ?s"
    by (simp add: charger_domaines_eq r)
  from analyser_counters [of ?s] c have
    "\<exists>self' a. charger_domaines self (Inr []) = Inr self' \<and> analyser self' = Inr a \<and>
      lignes_brutes_a a = 0 \<and> total_domaines a = 0 \<and> nombre_manquant a = 0 \<and>
      domaine_plus_long a = [] \<and> domaine_plus_court a = [] \<and> longueur_moyenne a = Entier 0"
    by auto
  moreover from analyser_counters [of self] have
    "\<exists>a. analyser self = Inr a \<and>
      (domaines self = [] \<longrightarrow>
         domaine_plus_long a = [] \<and> domaine_plus_court a = [] \<and> longueur_moyenne a = Entier 0)"
    by blast
  ultimately show ?thesis by blast
qed

theorem empty_analysis_witness:
  "domaines (init ''sitesgouv.txt'') = [] \<and>
   (\<exists>a. analyser (init ''sitesgouv.txt'') = Inr a \<and> domaine_plus_long a = [] \<and>
        domaine_plus_court a = [] \<and> longueur_moyenne a = Entier 0) \<and>
   (\<exists>self' a. charger_domaines (init ''sitesgouv.txt'') (Inr []) = Inr self' \<and>
      analyser self' = Inr a \<and>
      lignes_brutes_a a = 0 \<and> total_domaines a = 0 \<and> nombre_manquant a = 0 \<and>
      domaine_plus_long a = [] \<and> domaine_plus_court a = [] \<and> longueur_moyenne a = Entier 0)"
proof -
  have h: "domaines (init ''sitesgouv.txt'') = []" by (simp add: init_def)
  from empty_analysis [of "init ''sitesgouv.txt''"] h show ?thesis by blast
qed


section \<open>At most one domain per non-blank line\<close>

text \<open>
  Claim C9. After loading any content the number of accepted domains is at most
  \<^verbatim>\<open>lignes_brutes\<close>, so \<^verbatim>\<open>nombre_manquant\<close> is not negative; one turn of the loop adds at
  most one domain, and only for a line that is not blank.
\<close>

theorem accepted_at_most_raw:
  assumes "charger_domaines self (Inr contenu) = Inr self'"
  shows "int (length (domaines self')) \<le> lignes_brutes self' \<and>
         (\<exists>a. analyser self' = Inr a \<and> total_domaines a \<le> lignes_brutes_a a \<and>
              nombre_manquant a = lignes_brutes_a a - total_domaines a \<and> 0 \<le> nombre_manquant a) \<and>
         (\<exists>acc'. traiter_ligne i l acc = Inr acc' \<and>
              (fst acc' = fst acc \<or> (\<exists>d. strip l \<noteq> [] \<and> fst acc' = insert d (fst acc))))"
proof -
  from length_domaines_charger [OF assms] have
    le: "int (length (domaines self')) \<le> lignes_brutes self'" .
  from analyser_counters [of self'] obtain a where
    a: "analyser self' = Inr a" "total_domaines a = int (length (domaines self'))"
       "lignes_brutes_a a = lignes_brutes self'"
       "nombre_manquant a = lignes_brutes self' - int (length (domaines self'))"
    by blast
  with le have "\<exists>a. analyser self' = Inr a \<and> total_domaines a \<le> lignes_brutes_a a \<and>
              nombre_manquant a = lignes_brutes_a a - total_domaines a \<and> 0 \<le> nombre_manquant a"
    by auto
  moreover have "\<exists>acc'. traiter_ligne i l acc = Inr acc' \<and>
              (fst acc' = fst acc \<or> (\<exists>d. strip l \<noteq> [] \<and> fst acc' = insert d (fst acc)))"
  proof (cases "domaine_accepte l")
    case None
    then show ?thesis by (simp add: traiter_ligne_eq)
  next
    case (Some d)
    with domaine_accepte_SomeD [OF Some] show ?thesis by (auto simp: traiter_ligne_eq)
  qed
  ultimately show ?thesis using le by blast
qed

theorem accepted_at_most_raw_witness:
  "charger_domaines (init ''sitesgouv.txt'') (Inr ''a.fr\<newline>A.FR\<newline>\<newline>notadomain\<newline>'') =
     Inr \<lparr>source_file = ''sitesgouv.txt'', lignes_brutes = 3, domaines = [''a.fr''],
          domaines_manquants = [''Ligne 4: notadomain...'']\<rparr> \<and>
   (\<exists>a. analyser \<lparr>source_file = ''sitesgouv.txt'', lignes_brutes = 3, domaines = [''a.fr''],
                   domaines_manquants = [''Ligne 4: notadomain...'']\<rparr> = Inr a \<and>
        total_domaines a \<le> lignes_brutes_a a \<and>
        nombre_manquant a = lignes_brutes_a a - total_domaines a \<and> 0 \<le> nombre_manquant a)"
proof -
  have h: "charger_domaines (init ''sitesgouv.txt'')
             (Inr ''a.fr\<newline>A.FR\<newline>\<newline>notadomain\<newline>'') =
     Inr \<lparr>source_file = ''sitesgouv.txt'', lignes_brutes = 3, domaines = [''a.fr''],
          domaines_manquants = [''Ligne 4: notadomain...'']\<rparr>"
    by code_simp
  from accepted_at_most_raw [OF h, of 1 "[]" "({}, [])"] h show ?thesis by blast
qed


section \<open>The total named developpement\<close>

text \<open>
  Claim C3, amended. \<^verbatim>\<open>nombre_developpement\<close> is the number of accepted domains that
  contain \<^verbatim>\<open>developpement-durable\<close>. The other substring of the environment test of
  line 130, \<^verbatim>\<open>ecologie.\<close>, is not part of this total, which is therefore at most the
  number of domains in the environment category.
\<close>

theorem developpement_total:
  "\<exists>a. analyser self = Inr a \<and>
     nombre_developpement a = compter (str_in ''developpement-durable'') (domaines self) \<and>
     nombre_developpement a \<le> compter (\<lambda>d. Environnement \<in> categories_de d) (domaines self)"
proof -
  have "compter (str_in ''developpement-durable'') ds
          \<le> compter (\<lambda>d. Environnement \<in> categories_de d) ds" for ds
    by (induction ds) (auto simp: compter_def categories_de_def Let_def)
  with analyser_counters [of self] show ?thesis by force
qed

theorem developpement_total_witness:
  "\<exists>a. analyser \<lparr>source_file = ''sitesgouv.txt'', lignes_brutes = 2,
          domaines = [''developpement-durable.gouv.fr'', ''ecologie.gouv.fr''],
          domaines_manquants = []\<rparr> = Inr a \<and>
       nombre_developpement a = 1 \<and> nombre_developpement a \<le> 2"
proof -
  let ?ds = "[''developpement-durable.gouv.fr'', ''ecologie.gouv.fr'']"
  let ?s = "\<lparr>source_file = ''sitesgouv.txt'', lignes_brutes = 2, domaines = ?ds,
             domaines_manquants = []\<rparr>"
  have c: "compter (str_in ''developpement-durable'') ?ds = 1"
          "compter (\<lambda>d. Environnement \<in> categories_de d) ?ds = 2"
    by code_simp+
  from developpement_total [of ?s] c show ?thesis by simp
qed

text \<open>
  The claim as stated takes the total to follow the environment test. For the file of the
  one line \<^verbatim>\<open>ecologie.gouv.fr\<close> the domain is in the environment category and the total
  is 0.
\<close>

theorem developpement_total_misses_ecologie:
  "charger_domaines (init ''sitesgouv.txt'') (Inr ''ecologie.gouv.fr\<newline>'') =
     Inr \<lparr>source_file = ''sitesgouv.txt'', lignes_brutes = 1,
          domaines = [''ecologie.gouv.fr''], domaines_manquants = []\<rparr> \<and>
   categories_de ''ecologie.gouv.fr'' = {Environnement} \<and>
   compter (\<lambda>d. str_in ''developpement-durable'' d \<or> str_in ''ecologie.'' d)
     [''ecologie.gouv.fr''] = 1 \<and>
   analyser \<lparr>source_file = ''sitesgouv.txt'', lignes_brutes = 1,
             domaines = [''ecologie.gouv.fr''], domaines_manquants = []\<rparr> =
     Inr \<lparr>total_domaines = 1, lignes_brutes_a = 1, nombre_manquant = 0,
          ministere_uniquement = 0, region_uniquement = 0, service_uniquement = 0,
          prefecture_uniquement = 0, nombre_chevauchement = 0,
          nombre_ministere = 0, nombre_region = 0, nombre_service = 0,
          nombre_prefecture = 0, nombre_developpement = 0,
          domaine_plus_long = ''ecologie.gouv.fr'',
          domaine_plus_court = ''ecologie.gouv.fr'',
          longueur_moyenne = Arrondi1 16 1, manquants_critiques = domaines_critiques\<rparr>"
  by code_simp

end
